theory Spec2Isabelle
  imports Complex_Main "HOL-Library.Multiset"
begin

section \<open>Price elasticity model: data\<close>

text \<open>
  The development follows \<^verbatim>\<open>src/price_elasticity_model.py\<close>, class
  \<^verbatim>\<open>PriceElasticityModel\<close>. Python floats are idealised as reals; the one
  non-real float that the code can hand back, NaN, is kept as a value of its own
  wherever pandas produces it (\<open>NaN\<close> in results, \<open>NA\<close> for a missing cell).
\<close>

datatype fval = Val real | NaN

datatype cell = Num real | Str string | NA

datatype py_error =
    KeyError "string list"
  | TypeError
  | ValueError
  | SourceError string
  | FitError

text \<open>
  A \<^verbatim>\<open>DataFrame\<close> as read from a CSV file: column labels, and rows of cells.
  \<^verbatim>\<open>read_csv\<close> delivers pairwise distinct labels; the renaming of
  \<^verbatim>\<open>load_data\<close> can make two of them equal, and the model follows a label that
  occurs twice as far as the row filter of \<^verbatim>\<open>load_data\<close>, which then raises.
\<close>

record frame =
  columns :: "string list"
  rows :: "cell list list"

text \<open>
  One row of \<^verbatim>\<open>elasticity_results\<close>: the eight keys of the dict appended in
  \<^verbatim>\<open>calculate_elasticity\<close>, then the two columns added after sorting.
\<close>

record fitrow =
  category :: cell
  elasticity :: real
  p_value :: real
  r_squared :: real
  avg_price :: real
  median_price :: real
  total_sales :: real
  num_products :: int

record crow = fitrow +
  demand_type :: string
  can_increase_price :: string

text \<open>
  \<^verbatim>\<open>pd.DataFrame([])\<close> and \<^verbatim>\<open>pd.DataFrame()\<close> have no columns at all, so
  every column access on them raises \<^verbatim>\<open>KeyError\<close>; a frame built from at least one
  dict has the columns of the dict.
\<close>

datatype result_frame = NoColumns | Table (table_rows: "crow list")

record model =
  elasticity_results :: "result_frame option"
  df :: "frame option"

definition init :: model where
  "init = \<lparr>elasticity_results = None, df = None\<rparr>"

record simulation =
  sim_category :: string
  current_price :: real
  new_price :: real
  sim_elasticity :: real
  price_change_pct :: real
  quantity_change_pct :: real
  revenue_change_pct :: real
  estimated_revenue_impact :: real
  current_total_sales :: real

record summary =
  total_categories :: int
  inelastic_categories :: int
  elastic_categories :: int
  inelastic_pct :: real
  avg_elasticity :: fval
  significant_results :: int
  avg_r_squared :: fval

section \<open>Classification\<close>

definition classify_demand :: "real \<Rightarrow> string" where
  "classify_demand e =
     (let abs_elasticity = \<bar>e\<bar> in
      if abs_elasticity < 1 / 2 then ''Highly Inelastic''
      else if abs_elasticity < 1 then ''Inelastic''
      else if abs_elasticity = 1 then ''Unit Elastic''
      else if abs_elasticity > 1 \<and> abs_elasticity < 3 / 2 then ''Elastic''
      else ''Highly Elastic'')"

text \<open>The lambda of \<^verbatim>\<open>calculate_elasticity\<close>: \<^verbatim>\<open>'No' if x > 1 else 'Yes'\<close>.\<close>

definition can_increase_price_flag :: "real \<Rightarrow> string" where
  "can_increase_price_flag x = (if x > 1 then ''No'' else ''Yes'')"

section \<open>Simulation and summary\<close>

definition simulate_price_change :: "model \<Rightarrow> string \<Rightarrow> real \<Rightarrow> py_error + simulation option" where
  "simulate_price_change st cat pct =
     (case elasticity_results st of
        None \<Rightarrow> Inr None
      | Some NoColumns \<Rightarrow> Inl (KeyError [''category''])
      | Some (Table rs) \<Rightarrow>
          (case filter (\<lambda>r. category r = Str cat) rs of
             [] \<Rightarrow> Inr None
           | row # _ \<Rightarrow>
               (let e = elasticity row;
                    quantity_change = e * pct;
                    revenue_change = (1 + pct) * (1 + quantity_change) - 1;
                    impact = total_sales row * revenue_change
                in Inr (Some \<lparr>sim_category = cat,
                              current_price = avg_price row,
                              new_price = avg_price row * (1 + pct),
                              sim_elasticity = e,
                              price_change_pct = pct * 100,
                              quantity_change_pct = quantity_change * 100,
                              revenue_change_pct = revenue_change * 100,
                              estimated_revenue_impact = impact,
                              current_total_sales = total_sales row\<rparr>))))"

text \<open>
  \<^verbatim>\<open>Series.mean()\<close> of a float column without missing values: the arithmetic mean,
  and NaN for a column of length zero.
\<close>

definition series_mean :: "real list \<Rightarrow> fval" where
  "series_mean xs = (if xs = [] then NaN else Val (sum_list xs / real (length xs)))"

definition get_summary_stats :: "model \<Rightarrow> py_error + summary option" where
  "get_summary_stats st =
     (case elasticity_results st of
        None \<Rightarrow> Inr None
      | Some NoColumns \<Rightarrow> Inl (KeyError [''elasticity''])
      | Some (Table rs) \<Rightarrow>
          (let inelastic_count = int (length (filter (\<lambda>r. elasticity r < 1) rs));
               total_count = int (length rs)
           in Inr (Some \<lparr>total_categories = total_count,
                         inelastic_categories = inelastic_count,
                         elastic_categories = total_count - inelastic_count,
                         inelastic_pct =
                           (if total_count > 0
                            then real_of_int inelastic_count / real_of_int total_count * 100
                            else 0),
                         avg_elasticity = series_mean (map elasticity rs),
                         significant_results =
                           int (length (filter (\<lambda>r. p_value r < 5 / 100) rs)),
                         avg_r_squared = series_mean (map r_squared rs)\<rparr>)))"

section \<open>The numeric libraries\<close>

text \<open>
  numpy, pandas and statsmodels are not part of the repository. The routines that the
  model applies to dataset columns are parameters: \<^verbatim>\<open>np.log\<close>, the fit of
  \<^verbatim>\<open>sm.OLS(y, sm.add_constant(x)).fit()\<close> (slope, its p-value, R squared), the
  column statistics \<^verbatim>\<open>mean\<close>, \<^verbatim>\<open>median\<close>, \<^verbatim>\<open>sum\<close>, and the
  index permutation that \<^verbatim>\<open>sort_values\<close> takes from numpy's argsort
  (its first argument is \<^verbatim>\<open>ascending\<close>). The results of a fit are taken to
  be finite numbers.
\<close>

record numlib =
  np_log :: "cell list \<Rightarrow> py_error + real list"
  ols_fit :: "real list \<Rightarrow> real list \<Rightarrow> py_error + real \<times> real \<times> real"
  col_mean :: "cell list \<Rightarrow> py_error + real"
  col_median :: "cell list \<Rightarrow> py_error + real"
  col_sum :: "cell list \<Rightarrow> py_error + real"
  argsort :: "bool \<Rightarrow> real list \<Rightarrow> nat list"


definition sort_values :: "numlib \<Rightarrow> ('a \<Rightarrow> real) \<Rightarrow> bool \<Rightarrow> 'a list \<Rightarrow> 'a list" where
  "sort_values lib key ascending rs = map (\<lambda>i. rs ! i) (argsort lib ascending (map key rs))"

text \<open>
  The two selections of the result frame: \<^verbatim>\<open>pd.DataFrame()\<close> while nothing has
  been estimated, otherwise the rows below (above) an elasticity of 1, sorted by
  \<^verbatim>\<open>avg_price\<close> descending (by \<^verbatim>\<open>elasticity\<close> ascending).
\<close>

definition get_inelastic_categories :: "numlib \<Rightarrow> model \<Rightarrow> py_error + result_frame" where
  "get_inelastic_categories lib st =
     (case elasticity_results st of
        None \<Rightarrow> Inr NoColumns
      | Some NoColumns \<Rightarrow> Inl (KeyError [''elasticity''])
      | Some (Table rs) \<Rightarrow>
          Inr (Table (sort_values lib avg_price False (filter (\<lambda>r. elasticity r < 1) rs))))"

definition get_elastic_categories :: "numlib \<Rightarrow> model \<Rightarrow> py_error + result_frame" where
  "get_elastic_categories lib st =
     (case elasticity_results st of
        None \<Rightarrow> Inr NoColumns
      | Some NoColumns \<Rightarrow> Inl (KeyError [''elasticity''])
      | Some (Table rs) \<Rightarrow>
          Inr (Table (sort_values lib elasticity True (filter (\<lambda>r. elasticity r > 1) rs))))"

section \<open>Frames\<close>

fun index_of :: "'a \<Rightarrow> 'a list \<Rightarrow> nat" where
  "index_of x [] = 0"
| "index_of x (y # ys) = (if x = y then 0 else Suc (index_of x ys))"

text \<open>A row shorter than the header is padded with missing values, as \<^verbatim>\<open>read_csv\<close> does.\<close>

definition cell_at :: "cell list \<Rightarrow> nat \<Rightarrow> cell" where
  "cell_at r i = (if i < length r then r ! i else NA)"

definition cell_of :: "frame \<Rightarrow> string \<Rightarrow> cell list \<Rightarrow> cell" where
  "cell_of f name r = cell_at r (index_of name (columns f))"

text \<open>\<^verbatim>\<open>frame[name]\<close>: the column, or \<^verbatim>\<open>KeyError\<close> when there is no such label.\<close>

definition column :: "frame \<Rightarrow> string \<Rightarrow> py_error + cell list" where
  "column f name =
     (if name \<in> set (columns f) then Inr (map (cell_of f name) (rows f))
      else Inl (KeyError [name]))"

definition is_text :: "cell \<Rightarrow> bool" where
  "is_text c = (case c of Str _ \<Rightarrow> True | _ \<Rightarrow> False)"

definition positive :: "cell \<Rightarrow> bool" where
  "positive c = (case c of Num x \<Rightarrow> 0 < x | _ \<Rightarrow> False)"

definition num_of :: "cell \<Rightarrow> real" where
  "num_of c = (case c of Num x \<Rightarrow> x | _ \<Rightarrow> 0)"

section \<open>Loading and cleaning\<close>

record load_report =
  original_size :: int
  cleaned_size :: int
  removed_records :: int
  removal_pct :: real

text \<open>
  \<^verbatim>\<open>rename(columns={price_col: 'price', sales_col: 'sales', category_col: 'category'})\<close>:
  labels that are not keys stay, keys that are not labels are ignored, and where two of
  the three keys coincide the later entry of the dict literal wins.
\<close>

definition rename_columns :: "string \<Rightarrow> string \<Rightarrow> string \<Rightarrow> frame \<Rightarrow> frame" where
  "rename_columns price_col sales_col category_col f =
     f\<lparr>columns :=
         map (\<lambda>c. if c = category_col then ''category''
                   else if c = sales_col then ''sales''
                   else if c = price_col then ''price''
                   else c) (columns f)\<rparr>"

text \<open>
  \<^verbatim>\<open>dropna(subset=['price', 'sales'])\<close> raises \<^verbatim>\<open>KeyError\<close> with the labels of the
  subset that the frame does not have, and otherwise drops the rows with a missing value
  in either column.
\<close>

definition dropna :: "frame \<Rightarrow> py_error + frame" where
  "dropna f =
     (let missing = filter (\<lambda>c. c \<notin> set (columns f)) [''price'', ''sales''] in
      if missing \<noteq> [] then Inl (KeyError missing)
      else Inr (f\<lparr>rows := filter (\<lambda>r. cell_of f ''price'' r \<noteq> NA \<and> cell_of f ''sales'' r \<noteq> NA)
                                   (rows f)\<rparr>))"

text \<open>
  \<^verbatim>\<open>df[(df['price'] > 0) & (df['sales'] > 0)]\<close>. Each comparison covers every
  column that carries the label, and comparing a text cell with 0 raises
  \<^verbatim>\<open>TypeError\<close>; a missing value compares false. When a label occurs twice its
  comparison is a frame instead of a column, and combining the two masks raises
  \<^verbatim>\<open>ValueError\<close> (pandas cannot align on duplicate labels).
\<close>

definition has_text :: "frame \<Rightarrow> string \<Rightarrow> bool" where
  "has_text f name \<longleftrightarrow>
     (\<exists>r \<in> set (rows f). \<exists>(c, x) \<in> set (zip (columns f) r). c = name \<and> is_text x)"

definition keep_positive :: "frame \<Rightarrow> py_error + frame" where
  "keep_positive f =
     (case column f ''price'' of
        Inl e \<Rightarrow> Inl e
      | Inr ps \<Rightarrow>
          (if has_text f ''price'' then Inl TypeError
           else case column f ''sales'' of
             Inl e \<Rightarrow> Inl e
           | Inr ss \<Rightarrow>
               (if has_text f ''sales'' then Inl TypeError
                else if count_list (columns f) ''price'' > 1
                        \<or> count_list (columns f) ''sales'' > 1 then Inl ValueError
                else Inr (f\<lparr>rows := filter (\<lambda>r. positive (cell_of f ''price'' r)
                                                 \<and> positive (cell_of f ''sales'' r)) (rows f)\<rparr>))))"

text \<open>
  The argument \<open>src\<close> is the outcome of \<^verbatim>\<open>pd.read_csv(filepath)\<close>: the frame, or the
  exception it raised. The method assigns \<^verbatim>\<open>self.df\<close> after every step, so a later
  exception leaves the frame of the step before in the model.
\<close>

definition load_data ::
  "model \<Rightarrow> py_error + frame \<Rightarrow> string \<Rightarrow> string \<Rightarrow> string \<Rightarrow> model \<times> (py_error + load_report)" where
  "load_data st src price_col sales_col category_col =
     (case src of
        Inl e \<Rightarrow> (st, Inl e)
      | Inr raw \<Rightarrow>
          (let d1 = rename_columns price_col sales_col category_col raw;
               osize = int (length (rows d1))
           in case dropna d1 of
                Inl e \<Rightarrow> (st\<lparr>df := Some d1\<rparr>, Inl e)
              | Inr d2 \<Rightarrow>
                  (case keep_positive d2 of
                     Inl e \<Rightarrow> (st\<lparr>df := Some d2\<rparr>, Inl e)
                   | Inr d3 \<Rightarrow>
                       (let removed = osize - int (length (rows d3)) in
                        (st\<lparr>df := Some d3\<rparr>,
                         Inr \<lparr>original_size = osize,
                              cleaned_size = int (length (rows d3)),
                              removed_records = removed,
                              removal_pct =
                                (if osize > 0
                                 then real_of_int removed / real_of_int osize * 100
                                 else 0)\<rparr>)))))"

text \<open>The invariant of a cleaned dataset.\<close>

definition cleaned :: "frame \<Rightarrow> bool" where
  "cleaned f \<longleftrightarrow>
     ''price'' \<in> set (columns f) \<and> ''sales'' \<in> set (columns f)
     \<and> (\<forall>r \<in> set (rows f). positive (cell_of f ''price'' r) \<and> positive (cell_of f ''sales'' r))"

section \<open>Estimation\<close>

text \<open>\<^verbatim>\<open>Series.unique()\<close>: the distinct values in order of first appearance.\<close>

definition unique :: "'a list \<Rightarrow> 'a list" where
  "unique xs = rev (remdups (rev xs))"

text \<open>\<^verbatim>\<open>df['category'] == category\<close>: a missing value equals nothing, itself included.\<close>

definition cell_eq :: "cell \<Rightarrow> cell \<Rightarrow> bool" where
  "cell_eq a b = (a \<noteq> NA \<and> a = b)"

text \<open>
  One pass of the loop body for one category. \<open>Inl\<close> is an exception that leaves the
  method (everything before the \<^verbatim>\<open>try\<close>), \<open>Inr None\<close> is \<^verbatim>\<open>continue\<close>
  (too few observations, or any exception inside the \<^verbatim>\<open>try\<close>), \<open>Inr (Some row)\<close> is
  the dict appended.
\<close>

definition category_row :: "numlib \<Rightarrow> frame \<Rightarrow> int \<Rightarrow> cell \<Rightarrow> py_error + fitrow option" where
  "category_row lib f min_observations cat =
     (let cat_data = f\<lparr>rows := filter (\<lambda>r. cell_eq (cell_of f ''category'' r) cat) (rows f)\<rparr> in
      if int (length (rows cat_data)) < min_observations then Inr None
      else case column cat_data ''price'' of
        Inl e \<Rightarrow> Inl e
      | Inr ps \<Rightarrow>
      (case np_log lib ps of
        Inl e \<Rightarrow> Inl e
      | Inr log_price \<Rightarrow>
      (case column cat_data ''sales'' of
        Inl e \<Rightarrow> Inl e
      | Inr ss \<Rightarrow>
      (case np_log lib ss of
        Inl e \<Rightarrow> Inl e
      | Inr log_sales \<Rightarrow>
      (case ols_fit lib log_price log_sales of
        Inl _ \<Rightarrow> Inr None
      | Inr (e, p, r2) \<Rightarrow>
      (case col_mean lib ps of
        Inl _ \<Rightarrow> Inr None
      | Inr m \<Rightarrow>
      (case col_median lib ps of
        Inl _ \<Rightarrow> Inr None
      | Inr md \<Rightarrow>
      (case col_sum lib ss of
        Inl _ \<Rightarrow> Inr None
      | Inr tsum \<Rightarrow>
          Inr (Some \<lparr>category = cat, elasticity = e, p_value = p, r_squared = r2,
                     avg_price = m, median_price = md, total_sales = tsum,
                     num_products = int (length (rows cat_data))\<rparr>)))))))))"

fun collect_rows :: "numlib \<Rightarrow> frame \<Rightarrow> int \<Rightarrow> cell list \<Rightarrow> py_error + fitrow list" where
  "collect_rows lib f min_observations [] = Inr []"
| "collect_rows lib f min_observations (cat # cats) =
     (case category_row lib f min_observations cat of
        Inl e \<Rightarrow> Inl e
      | Inr None \<Rightarrow> collect_rows lib f min_observations cats
      | Inr (Some row) \<Rightarrow>
          (case collect_rows lib f min_observations cats of
             Inl e \<Rightarrow> Inl e
           | Inr rs \<Rightarrow> Inr (row # rs)))"

text \<open>The two columns added after sorting.\<close>

definition enrich :: "fitrow \<Rightarrow> crow" where
  "enrich r =
     \<lparr>category = category r, elasticity = elasticity r, p_value = p_value r,
      r_squared = r_squared r, avg_price = avg_price r, median_price = median_price r,
      total_sales = total_sales r, num_products = num_products r,
      demand_type = classify_demand (elasticity r),
      can_increase_price = can_increase_price_flag (elasticity r)\<rparr>"

text \<open>
  With no dataset loaded, \<^verbatim>\<open>self.df['category']\<close> raises \<^verbatim>\<open>TypeError\<close>. When no
  category is fitted, \<^verbatim>\<open>self.elasticity_results\<close> is assigned
  \<^verbatim>\<open>pd.DataFrame([])\<close> and \<^verbatim>\<open>sort_values('elasticity')\<close> raises
  \<^verbatim>\<open>KeyError\<close> on it.
\<close>

definition calculate_elasticity :: "numlib \<Rightarrow> model \<Rightarrow> int \<Rightarrow> model \<times> (py_error + result_frame)" where
  "calculate_elasticity lib st min_observations =
     (case df st of
        None \<Rightarrow> (st, Inl TypeError)
      | Some f \<Rightarrow>
          (case column f ''category'' of
             Inl e \<Rightarrow> (st, Inl e)
           | Inr cats \<Rightarrow>
               (case collect_rows lib f min_observations (unique cats) of
                  Inl e \<Rightarrow> (st, Inl e)
                | Inr [] \<Rightarrow>
                    (st\<lparr>elasticity_results := Some NoColumns\<rparr>, Inl (KeyError [''elasticity'']))
                | Inr (r # rs) \<Rightarrow>
                    (let res = Table (map enrich (sort_values lib elasticity False (r # rs)))
                     in (st\<lparr>elasticity_results := Some res\<rparr>, Inr res)))))"

section \<open>Correlation\<close>

text \<open>
  \<^verbatim>\<open>self.df['price'].corr(self.df['sales'])\<close>. The coefficient is computed by
  pandas and numpy in floating point, where rounding decides whether a constant column
  yields NaN or a number; it is the parameter \<open>corr\<close>, and only the selection of the
  two columns is modelled.
\<close>

definition get_correlation ::
  "(cell list \<Rightarrow> cell list \<Rightarrow> py_error + fval) \<Rightarrow> model \<Rightarrow> py_error + fval option" where
  "get_correlation corr st =
     (case df st of
        None \<Rightarrow> Inr None
      | Some f \<Rightarrow>
          (case column f ''price'' of
             Inl e \<Rightarrow> Inl e
           | Inr ps \<Rightarrow>
               (case column f ''sales'' of
                  Inl e \<Rightarrow> Inl e
                | Inr ss \<Rightarrow>
                    (case corr ps ss of
                       Inl e \<Rightarrow> Inl e
                     | Inr v \<Rightarrow> Inr (Some v)))))"

section \<open>Concrete instances\<close>

text \<open>
  An instance of the numeric libraries on which the model can be run: natural logarithm,
  slope and R squared of the least-squares line by the textbook formulas (the p-value is
  not computed and reported as 0), arithmetic mean, median and sum of a numeric column,
  and a stable argsort (for descending order: reverse, sort ascending, reverse, as
  pandas does around numpy's argsort).
\<close>

definition mean :: "real list \<Rightarrow> real" where
  "mean xs = sum_list xs / real (length xs)"

text \<open>The sum of products of deviations from the means.\<close>

definition codev :: "real list \<Rightarrow> real list \<Rightarrow> real" where
  "codev xs ys = (\<Sum>(x, y) \<leftarrow> zip xs ys. (x - mean xs) * (y - mean ys))"

definition numeric :: "cell list \<Rightarrow> (real list \<Rightarrow> 'a) \<Rightarrow> py_error + 'a" where
  "numeric cs g = (if \<exists>c \<in> set cs. is_text c then Inl TypeError else Inr (g (map num_of cs)))"

definition median :: "real list \<Rightarrow> real" where
  "median xs = (sort xs ! ((length xs - 1) div 2) + sort xs ! (length xs div 2)) / 2"

definition stable_argsort :: "bool \<Rightarrow> real list \<Rightarrow> nat list" where
  "stable_argsort asc ks =
     (if asc then sort_key (\<lambda>i. ks ! i) [0..<length ks]
      else rev (sort_key (\<lambda>i. ks ! i) (rev [0..<length ks])))"

definition sample_lib :: numlib where
  "sample_lib =
     \<lparr>np_log = (\<lambda>cs. numeric cs (map ln)),
      ols_fit = (\<lambda>xs ys.
        if codev xs xs = 0 \<or> codev ys ys = 0 then Inl FitError
        else Inr (codev xs ys / codev xs xs, 0,
                  codev xs ys * codev xs ys / (codev xs xs * codev ys ys))),
      col_mean = (\<lambda>cs. numeric cs mean),
      col_median = (\<lambda>cs. numeric cs median),
      col_sum = (\<lambda>cs. numeric cs sum_list),
      argsort = stable_argsort\<rparr>"



text \<open>The scenario of the simulation: one category with elasticity 0.6.\<close>

definition snacks_row :: crow where
  "snacks_row =
     enrich \<lparr>category = Str ''Snacks'', elasticity = 3 / 5, p_value = 1 / 100,
             r_squared = 1 / 2, avg_price = 100, median_price = 90,
             total_sales = 50000, num_products = 12\<rparr>"

definition snacks_model :: model where
  "snacks_model = \<lparr>elasticity_results = Some (Table [snacks_row]), df = None\<rparr>"

definition snacks_outcome :: simulation where
  "snacks_outcome =
     \<lparr>sim_category = ''Snacks'', current_price = 100, new_price = 105,
      sim_elasticity = 3 / 5, price_change_pct = 5, quantity_change_pct = 3,
      revenue_change_pct = 163 / 20, estimated_revenue_impact = 4075,
      current_total_sales = 50000\<rparr>"

text \<open>
  A small source file under the default column names: two categories with two valid
  records each, one category with a single record, one record with a missing price and
  one with a negative sales value.
\<close>

definition shop_csv :: frame where
  "shop_csv =
     \<lparr>columns = [''Item_Type'', ''Item_MRP'', ''Item_Outlet_Sales''],
      rows = [[Str ''Dairy'', Num 1, Num 1],
              [Str ''Dairy'', NA, Num 3],
              [Str ''Snacks'', Num 1, Num 1],
              [Str ''Dairy'', Num (exp 1), Num (exp 1)],
              [Str ''Meat'', Num 1, Num 1],
              [Str ''Snacks'', Num 2, Num (- 1)],
              [Str ''Snacks'', Num (exp 1), Num (exp 2)]]\<rparr>"

definition shop_frame :: frame where
  "shop_frame =
     \<lparr>columns = [''category'', ''price'', ''sales''],
      rows = [[Str ''Dairy'', Num 1, Num 1],
              [Str ''Snacks'', Num 1, Num 1],
              [Str ''Dairy'', Num (exp 1), Num (exp 1)],
              [Str ''Meat'', Num 1, Num 1],
              [Str ''Snacks'', Num (exp 1), Num (exp 2)]]\<rparr>"

definition shop_loaded :: model where
  "shop_loaded = \<lparr>elasticity_results = None, df = Some shop_frame\<rparr>"

definition shop_rows :: "fitrow list" where
  "shop_rows =
     [\<lparr>category = Str ''Dairy'', elasticity = 1, p_value = 0, r_squared = 1,
       avg_price = (1 + exp 1) / 2, median_price = (1 + exp 1) / 2,
       total_sales = 1 + exp 1, num_products = 2\<rparr>,
      \<lparr>category = Str ''Snacks'', elasticity = 2, p_value = 0, r_squared = 1,
       avg_price = (1 + exp 1) / 2, median_price = (1 + exp 1) / 2,
       total_sales = 1 + exp 2, num_products = 2\<rparr>]"

definition shop_results :: result_frame where
  "shop_results = Table (map enrich (rev shop_rows))"



text \<open>A source file that already has a \<open>price\<close> column next to \<open>Item_MRP\<close>.\<close>

definition repriced_csv :: frame where
  "repriced_csv =
     \<lparr>columns = [''price'', ''Item_MRP'', ''Item_Outlet_Sales''],
      rows = [[Num 9, Num 10, Num 5]]\<rparr>"




section \<open>Properties of the classifier\<close>

text \<open>
  C2. The label depends only on the magnitude of the elasticity: below 0.5 it is
  Highly Inelastic, from 0.5 up to but excluding 1 it is Inelastic, at exactly 1 it is
  Unit Elastic, strictly between 1 and 1.5 it is Elastic, and from 1.5 on it is
  Highly Elastic.
\<close>

theorem classify_demand_thresholds:
  "classify_demand e = classify_demand \<bar>e\<bar>
   \<and> (\<bar>e\<bar> < 1 / 2 \<longrightarrow> classify_demand e = ''Highly Inelastic'')
   \<and> (1 / 2 \<le> \<bar>e\<bar> \<and> \<bar>e\<bar> < 1 \<longrightarrow> classify_demand e = ''Inelastic'')
   \<and> (\<bar>e\<bar> = 1 \<longrightarrow> classify_demand e = ''Unit Elastic'')
   \<and> (1 < \<bar>e\<bar> \<and> \<bar>e\<bar> < 3 / 2 \<longrightarrow> classify_demand e = ''Elastic'')
   \<and> (3 / 2 \<le> \<bar>e\<bar> \<longrightarrow> classify_demand e = ''Highly Elastic'')"
  by (simp add: classify_demand_def)

text \<open>Witness for C2: the six sample values of the classifier.\<close>

theorem classify_demand_examples:
  "classify_demand (3 / 10) = ''Highly Inelastic''
   \<and> classify_demand (7 / 10) = ''Inelastic''
   \<and> classify_demand 1 = ''Unit Elastic''
   \<and> classify_demand (12 / 10) = ''Elastic''
   \<and> classify_demand 2 = ''Highly Elastic''
   \<and> classify_demand (- (12 / 10)) = ''Elastic''"
  using classify_demand_thresholds [of "3 / 10"] classify_demand_thresholds [of "7 / 10"]
    classify_demand_thresholds [of 1] classify_demand_thresholds [of "12 / 10"]
    classify_demand_thresholds [of 2] classify_demand_thresholds [of "- (12 / 10)"]
  by simp

section \<open>Properties of the simulation\<close>

lemma find_filter_Cons:
  "find P xs = Some x \<Longrightarrow> \<exists>rest. filter P xs = x # rest"
  by (induction xs) (auto split: if_splits)

text \<open>
  C1, as the code has it. When the result set has a row for the category, the simulation
  is computed from the first such row. The two change fields are percentages: the
  quantity change is \<open>elasticity * price_change_pct * 100\<close> and the revenue change is
  \<open>((1 + price_change_pct) * (1 + elasticity * price_change_pct) - 1) * 100\<close>. The
  new price is \<open>avg_price * (1 + price_change_pct)\<close>, and the revenue impact is the
  total sales times the revenue change taken as a fraction.
\<close>

theorem simulate_price_change_formulas:
  assumes "elasticity_results st = Some (Table rs)"
    and "find (\<lambda>r. category r = Str cat) rs = Some row"
  shows "\<exists>res. simulate_price_change st cat pct = Inr (Some res)
    \<and> quantity_change_pct res = elasticity row * pct * 100
    \<and> revenue_change_pct res = ((1 + pct) * (1 + elasticity row * pct) - 1) * 100
    \<and> new_price res = avg_price row * (1 + pct)
    \<and> estimated_revenue_impact res
        = total_sales row * ((1 + pct) * (1 + elasticity row * pct) - 1)"
proof -
  from assms(2) obtain rest where "filter (\<lambda>r. category r = Str cat) rs = row # rest"
    using find_filter_Cons by fastforce
  with assms(1) show ?thesis
    by (simp add: simulate_price_change_def Let_def)
qed

text \<open>
  Witness for C1: elasticity 0.6, average price 100, total sales 50000 and a price change
  of 0.05 give a quantity change of 3 (percent), a revenue change of 8.15 (percent), the
  new price 105 and the revenue impact 4075.
\<close>

theorem simulate_price_change_scenario:
  "\<exists>res. simulate_price_change snacks_model ''Snacks'' (5 / 100) = Inr (Some res)
     \<and> quantity_change_pct res = 3 \<and> revenue_change_pct res = 163 / 20
     \<and> new_price res = 105 \<and> estimated_revenue_impact res = 4075"
  using simulate_price_change_formulas
    [of snacks_model "[snacks_row]" "''Snacks''" snacks_row "5 / 100"]
  by (simp add: snacks_model_def snacks_row_def enrich_def)

text \<open>
  Counterexample to C1 as stated: in the scenario the returned quantity change is not
  \<open>elasticity * price_change_pct = 0.03\<close> and the returned revenue change is not
  \<open>1.05 * 1.03 - 1 = 0.0815\<close>.
\<close>

theorem simulate_price_change_percent_counterexample:
  "simulate_price_change snacks_model ''Snacks'' (5 / 100) = Inr (Some snacks_outcome)
   \<and> quantity_change_pct snacks_outcome \<noteq> 3 / 5 * (5 / 100)
   \<and> revenue_change_pct snacks_outcome \<noteq> (1 + 5 / 100) * (1 + 3 / 5 * (5 / 100)) - 1"
  by (simp add: simulate_price_change_def snacks_model_def snacks_row_def enrich_def
      snacks_outcome_def Let_def)

section \<open>Before estimation\<close>

text \<open>
  C10. While \<^verbatim>\<open>elasticity_results\<close> is \<^verbatim>\<open>None\<close>, the simulation and the summary
  return \<^verbatim>\<open>None\<close> and the inelastic categories are the empty frame; while
  \<^verbatim>\<open>df\<close> is \<^verbatim>\<open>None\<close>, the correlation is \<^verbatim>\<open>None\<close>. None of them raises.
\<close>

theorem not_estimated_returns_absent:
  "(elasticity_results st = None \<longrightarrow>
      simulate_price_change st cat pct = Inr None
      \<and> get_summary_stats st = Inr None
      \<and> get_inelastic_categories lib st = Inr NoColumns)
   \<and> (df st = None \<longrightarrow> get_correlation corr st = Inr None)"
  by (simp add: simulate_price_change_def get_summary_stats_def
      get_inelastic_categories_def get_correlation_def)

text \<open>Witness for C10: the model as \<^verbatim>\<open>__init__\<close> leaves it.\<close>

theorem not_estimated_returns_absent_witness:
  "elasticity_results init = None \<and> df init = None
   \<and> simulate_price_change init ''Snacks'' (5 / 100) = Inr None
   \<and> get_summary_stats init = Inr None
   \<and> get_inelastic_categories sample_lib init = Inr NoColumns
   \<and> get_correlation (\<lambda>ps ss. Inr NaN) init = Inr None"
  using not_estimated_returns_absent
    [of init "''Snacks''" "5 / 100" sample_lib "\<lambda>ps ss. Inr NaN"]
  by (simp add: init_def)

section \<open>Running the estimation on the sample file\<close>

lemma codev_pair: "codev [a, b] [c, d] = (a - b) * (c - d) / 2"
  by (simp add: codev_def mean_def field_simps)

lemma shop_collect:
  "collect_rows sample_lib shop_frame 2 [Str ''Dairy'', Str ''Snacks'', Str ''Meat''] = Inr shop_rows"
  by (simp add: category_row_def shop_frame_def column_def cell_of_def cell_at_def
      cell_eq_def sample_lib_def numeric_def is_text_def num_of_def codev_pair
      mean_def median_def shop_rows_def Let_def)

lemma shop_unique:
  "column shop_frame ''category''
     = Inr [Str ''Dairy'', Str ''Snacks'', Str ''Dairy'', Str ''Meat'', Str ''Snacks'']"
  "unique [Str ''Dairy'', Str ''Snacks'', Str ''Dairy'', Str ''Meat'', Str ''Snacks'']
     = [Str ''Dairy'', Str ''Snacks'', Str ''Meat'']"
  by (simp_all add: unique_def column_def shop_frame_def cell_of_def cell_at_def)

lemma shop_sort:
  "sort_values sample_lib elasticity False shop_rows = rev shop_rows"
  by (simp add: sort_values_def sample_lib_def stable_argsort_def shop_rows_def)

lemma shop_estimate:
  "calculate_elasticity sample_lib shop_loaded 2
     = (shop_loaded\<lparr>elasticity_results := Some shop_results\<rparr>, Inr shop_results)"
proof -
  have "shop_rows = hd shop_rows # tl shop_rows"
    by (simp add: shop_rows_def)
  then obtain r rs where rs: "shop_rows = r # rs" ..
  have "collect_rows sample_lib shop_frame 2
          (unique [Str ''Dairy'', Str ''Snacks'', Str ''Dairy'', Str ''Meat'', Str ''Snacks''])
        = Inr (r # rs)"
    by (simp only: shop_unique shop_collect rs)
  moreover have "sort_values sample_lib elasticity False (r # rs) = rev shop_rows"
    using shop_sort by (simp only: rs)
  ultimately show ?thesis
    by (simp add: calculate_elasticity_def shop_loaded_def shop_unique(1) shop_results_def
        Let_def)
qed

section \<open>Properties of the estimation\<close>






lemma calculate_elasticity_returns:
  assumes "calculate_elasticity lib st m = (st', Inr res)"
  shows "\<exists>rs. res = Table (map enrich (sort_values lib elasticity False rs))
           \<and> st' = st\<lparr>elasticity_results := Some res\<rparr>
           \<and> (\<exists>f cats. df st = Some f \<and> column f ''category'' = Inr cats
                 \<and> collect_rows lib f m (unique cats) = Inr rs)"
  using assms
  by (auto simp: calculate_elasticity_def Let_def
      split: option.splits sum.splits list.splits)


lemma enrich_flags:
  "r \<in> set (map enrich rs) \<Longrightarrow> can_increase_price r = can_increase_price_flag (elasticity r)"
  by (auto simp: enrich_def)


text \<open>
  C3. The flag is \<^verbatim>\<open>'Yes'\<close> exactly when the signed elasticity is at most 1 and
  \<^verbatim>\<open>'No'\<close> exactly when it exceeds 1; the absolute value plays no part. Every row
  of the frame that \<^verbatim>\<open>calculate_elasticity\<close> returns, which is also the frame it
  stores in the model, carries the flag of its own elasticity.
\<close>

theorem can_increase_price_signed:
  "(can_increase_price_flag e = ''Yes'') = (e \<le> 1)
   \<and> (can_increase_price_flag e = ''No'') = (1 < e)
   \<and> (calculate_elasticity lib st m = (st', Inr res) \<longrightarrow>
        (\<exists>rs. res = Table rs \<and> elasticity_results st' = Some (Table rs)
          \<and> (\<forall>r \<in> set rs. can_increase_price r = can_increase_price_flag (elasticity r))))"
proof (intro conjI impI)
  assume "calculate_elasticity lib st m = (st', Inr res)"
  then obtain rs where "res = Table (map enrich (sort_values lib elasticity False rs))"
    and "st' = st\<lparr>elasticity_results := Some res\<rparr>"
    using calculate_elasticity_returns by blast
  then show "\<exists>rs. res = Table rs \<and> elasticity_results st' = Some (Table rs)
      \<and> (\<forall>r \<in> set rs. can_increase_price r = can_increase_price_flag (elasticity r))"
    using enrich_flags by auto
qed (simp_all add: can_increase_price_flag_def)

text \<open>
  Witness for C3: the flags of 0.8, 1.5 and -3.0, and the flags of the rows estimated
  from the sample file.
\<close>

theorem can_increase_price_examples:
  "can_increase_price_flag (8 / 10) = ''Yes''
   \<and> can_increase_price_flag (15 / 10) = ''No''
   \<and> can_increase_price_flag (- 3) = ''Yes''
   \<and> calculate_elasticity sample_lib shop_loaded 2
       = (shop_loaded\<lparr>elasticity_results := Some shop_results\<rparr>, Inr shop_results)
   \<and> map elasticity (table_rows shop_results) = [2, 1]
   \<and> map can_increase_price (table_rows shop_results) = [''No'', ''Yes'']"
proof -
  from can_increase_price_signed [of _ sample_lib shop_loaded 2 _ shop_results] shop_estimate
  obtain rs where rs: "shop_results = Table rs"
    and flags: "\<forall>r \<in> set rs. can_increase_price r = can_increase_price_flag (elasticity r)"
    by blast
  have els: "map elasticity (table_rows shop_results) = [2, 1]"
    by (simp add: shop_results_def shop_rows_def enrich_def)
  from arg_cong [OF rs, of table_rows] have tr: "table_rows shop_results = rs"
    by simp
  from flags have "map can_increase_price rs = map can_increase_price_flag (map elasticity rs)"
    by simp
  with els tr have "map can_increase_price (table_rows shop_results)
      = [can_increase_price_flag 2, can_increase_price_flag 1]"
    by simp
  with can_increase_price_signed [of 2] can_increase_price_signed [of 1]
  have "map can_increase_price (table_rows shop_results) = [''No'', ''Yes'']"
    by simp
  with can_increase_price_signed [of "8 / 10"] can_increase_price_signed [of "15 / 10"]
    can_increase_price_signed [of "- 3"] shop_estimate els
  show ?thesis by simp
qed

lemma simulate_price_change_no_match:
  assumes "elasticity_results st = Some (Table rs)"
    and "\<forall>r \<in> set rs. category r \<noteq> Str cat"
  shows "simulate_price_change st cat pct = Inr None"
proof -
  from assms(2) have "filter (\<lambda>r. category r = Str cat) rs = []"
    by (simp add: filter_empty_conv)
  with assms(1) show ?thesis
    by (simp add: simulate_price_change_def)
qed








section \<open>Properties of the summary\<close>

lemma shop_too_few:
  "calculate_elasticity sample_lib shop_loaded 10
     = (shop_loaded\<lparr>elasticity_results := Some NoColumns\<rparr>, Inl (KeyError [''elasticity'']))"
proof -
  have "collect_rows sample_lib shop_frame 10 [Str ''Dairy'', Str ''Snacks'', Str ''Meat''] = Inr []"
    by (simp add: category_row_def shop_frame_def cell_of_def cell_at_def cell_eq_def Let_def)
  then show ?thesis
    by (simp add: calculate_elasticity_def shop_loaded_def shop_unique)
qed

text \<open>
  C7, evaluated on the code. A frame that has its columns and no row for the category
  gives \<^verbatim>\<open>None\<close> (lemma \<open>simulate_price_change_no_match\<close>). The result set that
  an estimation leaves in the model when no category reaches \<open>min_observations\<close> has
  no columns: no category matches a row of it, and for every category the simulation
  raises \<^verbatim>\<open>KeyError\<close> instead of returning \<^verbatim>\<open>None\<close>.
\<close>

theorem simulate_price_change_no_columns:
  "calculate_elasticity sample_lib shop_loaded 10
     = (shop_loaded\<lparr>elasticity_results := Some NoColumns\<rparr>, Inl (KeyError [''elasticity'']))
   \<and> simulate_price_change (shop_loaded\<lparr>elasticity_results := Some NoColumns\<rparr>) cat pct
     = Inl (KeyError [''category''])"
  using shop_too_few by (simp add: simulate_price_change_def)

text \<open>
  C4, evaluated on the code. On a result frame with zero rows the counts and
  \<open>inelastic_pct\<close> are 0, but \<open>avg_elasticity\<close> and \<open>avg_r_squared\<close> are NaN. On the
  frame without columns the summary raises \<^verbatim>\<open>KeyError\<close>, and that frame is what
  an estimation leaves in the model when no category reaches \<open>min_observations\<close>, as
  the sample file shows with a minimum of 10.
\<close>

theorem get_summary_stats_zero_rows:
  "get_summary_stats \<lparr>elasticity_results = Some (Table []), df = d\<rparr>
     = Inr (Some \<lparr>total_categories = 0, inelastic_categories = 0, elastic_categories = 0,
                  inelastic_pct = 0, avg_elasticity = NaN, significant_results = 0,
                  avg_r_squared = NaN\<rparr>)
   \<and> get_summary_stats \<lparr>elasticity_results = Some NoColumns, df = d\<rparr>
     = Inl (KeyError [''elasticity''])
   \<and> calculate_elasticity sample_lib shop_loaded 10
     = (shop_loaded\<lparr>elasticity_results := Some NoColumns\<rparr>, Inl (KeyError [''elasticity'']))"
  using shop_too_few by (simp add: get_summary_stats_def series_mean_def)

section \<open>Properties of loading\<close>

lemma shop_load:
  "load_data init (Inr shop_csv) ''Item_MRP'' ''Item_Outlet_Sales'' ''Item_Type''
   = (shop_loaded, Inr \<lparr>original_size = 7, cleaned_size = 5, removed_records = 2,
                         removal_pct = 200 / 7\<rparr>)"
  by (simp add: load_data_def shop_csv_def rename_columns_def dropna_def keep_positive_def
      has_text_def column_def cell_of_def cell_at_def is_text_def positive_def init_def
      shop_loaded_def
      shop_frame_def Let_def)

lemma positive_Num: "positive c \<longleftrightarrow> (\<exists>x. c = Num x \<and> 0 < x)"
  by (cases c) (simp_all add: positive_def)

lemma dropna_columns: "dropna f = Inr g \<Longrightarrow> columns g = columns f \<and> set (rows g) \<subseteq> set (rows f)
    \<and> length (rows g) \<le> length (rows f) \<and> ''price'' \<in> set (columns f) \<and> ''sales'' \<in> set (columns f)"
  by (auto simp: dropna_def Let_def split: if_splits)

lemma keep_positive_rows:
  "keep_positive f = Inr g \<Longrightarrow> columns g = columns f \<and> length (rows g) \<le> length (rows f)
     \<and> (\<forall>r \<in> set (rows g). positive (cell_of f ''price'' r) \<and> positive (cell_of f ''sales'' r))"
  by (auto simp: keep_positive_def split: sum.splits if_splits)



lemma cell_of_columns: "columns g = columns f \<Longrightarrow> cell_of g name r = cell_of f name r"
  by (simp add: cell_of_def)


lemma load_data_success:
  assumes "load_data st src price_col sales_col category_col = (st', Inr rep)"
  shows "\<exists>raw d2 d3. src = Inr raw
    \<and> dropna (rename_columns price_col sales_col category_col raw) = Inr d2
    \<and> keep_positive d2 = Inr d3
    \<and> st' = st\<lparr>df := Some d3\<rparr>
    \<and> original_size rep = int (length (rows raw))
    \<and> cleaned_size rep = int (length (rows d3))
    \<and> removed_records rep = int (length (rows raw)) - int (length (rows d3))
    \<and> (original_size rep = 0 \<longrightarrow> removal_pct rep = 0)"
proof (cases src)
  case (Inl e)
  with assms show ?thesis by (simp add: load_data_def)
next
  case raw: (Inr raw)
  let ?d1 = "rename_columns price_col sales_col category_col raw"
  have rows1: "rows ?d1 = rows raw"
    by (simp add: rename_columns_def)
  show ?thesis
  proof (cases "dropna ?d1")
    case (Inl e)
    with assms raw show ?thesis by (simp add: load_data_def Let_def)
  next
    case d2: (Inr d2)
    show ?thesis
    proof (cases "keep_positive d2")
      case (Inl e)
      with assms raw d2 show ?thesis by (simp add: load_data_def Let_def)
    next
      case d3: (Inr d3)
      from assms raw d2 d3 rows1 have "st' = st\<lparr>df := Some d3\<rparr>"
        and "original_size rep = int (length (rows raw))"
        and "cleaned_size rep = int (length (rows d3))"
        and "removed_records rep = int (length (rows raw)) - int (length (rows d3))"
        and "original_size rep = 0 \<longrightarrow> removal_pct rep = 0"
        by (auto simp: load_data_def Let_def)
      with raw d2 d3 show ?thesis by blast
    qed
  qed
qed

text \<open>
  C6. When \<^verbatim>\<open>load_data\<close> returns its report, every record of the dataset it leaves
  in the model has a price and a sales value that are numbers greater than 0, so neither
  is missing. The report counts the rows of the source and of the cleaned dataset, the
  removed records are their difference and never negative, and the removal percentage
  is 0 for a source without rows.
\<close>

theorem load_data_cleaned:
  assumes "load_data st src price_col sales_col category_col = (st', Inr rep)"
  shows "\<exists>raw d. src = Inr raw \<and> df st' = Some d
    \<and> (\<forall>r \<in> set (rows d). \<exists>p s. cell_of d ''price'' r = Num p \<and> 0 < p
                               \<and> cell_of d ''sales'' r = Num s \<and> 0 < s)
    \<and> original_size rep = int (length (rows raw))
    \<and> cleaned_size rep = int (length (rows d))
    \<and> removed_records rep = original_size rep - cleaned_size rep
    \<and> 0 \<le> removed_records rep
    \<and> (original_size rep = 0 \<longrightarrow> removal_pct rep = 0)"
proof -
  from load_data_success [OF assms] obtain raw d2 d3 where src: "src = Inr raw"
    and d2: "dropna (rename_columns price_col sales_col category_col raw) = Inr d2"
    and d3: "keep_positive d2 = Inr d3"
    and st': "st' = st\<lparr>df := Some d3\<rparr>"
    and osize: "original_size rep = int (length (rows raw))"
    and csize: "cleaned_size rep = int (length (rows d3))"
    and removed: "removed_records rep = int (length (rows raw)) - int (length (rows d3))"
    and pct: "original_size rep = 0 \<longrightarrow> removal_pct rep = 0"
    by blast
  from dropna_columns [OF d2] have len2: "length (rows d2) \<le> length (rows raw)"
    by (simp add: rename_columns_def)
  from keep_positive_rows [OF d3] have len3: "length (rows d3) \<le> length (rows d2)"
    and cols: "columns d3 = columns d2"
    and pos: "\<forall>r \<in> set (rows d3). positive (cell_of d2 ''price'' r) \<and> positive (cell_of d2 ''sales'' r)"
    by simp_all
  from pos have clean: "\<forall>r \<in> set (rows d3). \<exists>p s. cell_of d3 ''price'' r = Num p \<and> 0 < p
                               \<and> cell_of d3 ''sales'' r = Num s \<and> 0 < s"
    by (simp add: positive_Num cell_of_columns [OF cols])
  from len2 len3 removed have nonneg: "0 \<le> removed_records rep"
    by simp
  from st' have "df st' = Some d3"
    by simp
  with src clean osize csize removed nonneg pct show ?thesis
    by (intro exI [of _ raw] exI [of _ d3]) simp
qed

lemma load_data_gives_cleaned:
  assumes "load_data st src price_col sales_col category_col = (st', Inr rep)"
  shows "\<exists>d. df st' = Some d \<and> cleaned d"
proof -
  from load_data_success [OF assms] obtain raw d2 d3 where
        d2: "dropna (rename_columns price_col sales_col category_col raw) = Inr d2"
    and d3: "keep_positive d2 = Inr d3"
    and st': "st' = st\<lparr>df := Some d3\<rparr>"
    by blast
  from dropna_columns [OF d2]
  have "''price'' \<in> set (columns d2) \<and> ''sales'' \<in> set (columns d2)"
    by (simp add: rename_columns_def)
  moreover from keep_positive_rows [OF d3] have cols: "columns d3 = columns d2"
    and "\<forall>r \<in> set (rows d3). positive (cell_of d2 ''price'' r) \<and> positive (cell_of d2 ''sales'' r)"
    by simp_all
  ultimately have "cleaned d3"
    by (simp add: cleaned_def cell_of_columns [OF cols])
  with st' show ?thesis by simp
qed

text \<open>
  Witness for C6: the sample file has seven rows, of which the one with a missing price
  and the one with negative sales are removed.
\<close>

theorem load_data_cleaned_witness:
  "load_data init (Inr shop_csv) ''Item_MRP'' ''Item_Outlet_Sales'' ''Item_Type''
     = (shop_loaded, Inr \<lparr>original_size = 7, cleaned_size = 5, removed_records = 2,
                           removal_pct = 200 / 7\<rparr>)
   \<and> df shop_loaded = Some shop_frame
   \<and> map (\<lambda>r. (cell_of shop_frame ''price'' r, cell_of shop_frame ''sales'' r)) (rows shop_frame)
       = [(Num 1, Num 1), (Num 1, Num 1), (Num (exp 1), Num (exp 1)), (Num 1, Num 1),
          (Num (exp 1), Num (exp 2))]"
proof -
  from load_data_cleaned [OF shop_load] have "df shop_loaded = Some shop_frame"
    by (auto simp: shop_loaded_def)
  moreover have "map (\<lambda>r. (cell_of shop_frame ''price'' r, cell_of shop_frame ''sales'' r))
      (rows shop_frame)
       = [(Num 1, Num 1), (Num 1, Num 1), (Num (exp 1), Num (exp 1)), (Num 1, Num 1),
          (Num (exp 1), Num (exp 2))]"
    by (simp add: shop_frame_def cell_of_def cell_at_def)
  ultimately show ?thesis
    using shop_load by simp
qed



lemma load_data_duplicate_label:
  "load_data init (Inr repriced_csv) ''Item_MRP'' ''Item_Outlet_Sales'' ''Item_Type''
     = (init\<lparr>df := Some \<lparr>columns = [''price'', ''price'', ''sales''],
                          rows = [[Num 9, Num 10, Num 5]]\<rparr>\<rparr>, Inl ValueError)"
  by (simp add: load_data_def repriced_csv_def rename_columns_def dropna_def keep_positive_def
      has_text_def column_def cell_of_def cell_at_def is_text_def init_def Let_def)


end
